theory Spec2Isabelle
  imports Main "HOL-Library.Sublist"
begin

section \<open>Text and the Python string operations the bot uses\<close>

text \<open>
  Text is a \<^typ>\<open>string\<close> holding the UTF-8 bytes of the Python \<^verbatim>\<open>str\<close>. Every
  delimiter the bot searches for (\<^verbatim>\<open>:\<close>, space, \<^verbatim>\<open>!\<close>, \<^verbatim>\<open>@\<close>, \<^verbatim>\<open>#\<close>, \<^verbatim>\<open>$\<close>,
  braces) is ASCII, and an ASCII byte never occurs inside a multi-byte UTF-8 sequence, so
  searching, splitting and slicing at the positions found give the same pieces on bytes
  as on code points. The three operations that look at character classes
  (\<^verbatim>\<open>str.lower\<close>, \<^verbatim>\<open>str.strip()\<close> and the regular expression class \<^verbatim>\<open>\w\<close>) are
  modelled on ASCII: bytes from 0x80 on are neither letters, nor white space, nor word
  characters.
\<close>

datatype error =
    UnicodeDecodeError
  | IndexError
  | ValueError
  | AttributeError
  | RequestException

text \<open>\<^verbatim>\<open>bytes.rstrip(cs)\<close>, \<^verbatim>\<open>str.strip(cs)\<close>: drop the characters of \<open>cs\<close> at the ends.\<close>

definition str_rstrip :: "string \<Rightarrow> string \<Rightarrow> string" where
  "str_rstrip cs s = rev (dropWhile (\<lambda>c. c \<in> set cs) (rev s))"

definition str_strip :: "string \<Rightarrow> string \<Rightarrow> string" where
  "str_strip cs s = str_rstrip cs (dropWhile (\<lambda>c. c \<in> set cs) s)"

text \<open>\<^verbatim>\<open>str.strip()\<close> without argument strips white space.\<close>

definition whitespace :: string where
  "whitespace = [CHR '' '', CHR 0x09, CHR 0x0A, CHR 0x0B, CHR 0x0C, CHR 0x0D,
                 CHR 0x1C, CHR 0x1D, CHR 0x1E, CHR 0x1F]"

text \<open>
  \<^verbatim>\<open>bytes.decode("utf-8")\<close> is strict: it raises on a byte sequence that is not
  well-formed UTF-8 (a stray continuation byte, an overlong form, a surrogate, a code
  point beyond U+10FFFF, a truncated sequence).
\<close>

definition cont :: "nat \<Rightarrow> bool" where
  "cont b = (0x80 \<le> b \<and> b \<le> 0xBF)"

fun utf8_ok :: "nat list \<Rightarrow> bool" where
  "utf8_ok [] = True"
| "utf8_ok [b] = (b < 0x80)"
| "utf8_ok [b, c1] = (b < 0x80 \<and> c1 < 0x80 \<or> 0xC2 \<le> b \<and> b \<le> 0xDF \<and> cont c1)"
| "utf8_ok [b, c1, c2] =
     (if b < 0x80 then utf8_ok [c1, c2]
      else if 0xC2 \<le> b \<and> b \<le> 0xDF then cont c1 \<and> c2 < 0x80
      else if b = 0xE0 then 0xA0 \<le> c1 \<and> c1 \<le> 0xBF \<and> cont c2
      else if b = 0xED then 0x80 \<le> c1 \<and> c1 \<le> 0x9F \<and> cont c2
      else 0xE1 \<le> b \<and> b \<le> 0xEF \<and> cont c1 \<and> cont c2)"
| "utf8_ok (b # c1 # c2 # c3 # r) =
     (if b < 0x80 then utf8_ok (c1 # c2 # c3 # r)
      else if 0xC2 \<le> b \<and> b \<le> 0xDF then cont c1 \<and> utf8_ok (c2 # c3 # r)
      else if b = 0xE0 then 0xA0 \<le> c1 \<and> c1 \<le> 0xBF \<and> cont c2 \<and> utf8_ok (c3 # r)
      else if b = 0xED then 0x80 \<le> c1 \<and> c1 \<le> 0x9F \<and> cont c2 \<and> utf8_ok (c3 # r)
      else if 0xE1 \<le> b \<and> b \<le> 0xEF then cont c1 \<and> cont c2 \<and> utf8_ok (c3 # r)
      else if b = 0xF0 then 0x90 \<le> c1 \<and> c1 \<le> 0xBF \<and> cont c2 \<and> cont c3 \<and> utf8_ok r
      else if b = 0xF4 then 0x80 \<le> c1 \<and> c1 \<le> 0x8F \<and> cont c2 \<and> cont c3 \<and> utf8_ok r
      else 0xF1 \<le> b \<and> b \<le> 0xF3 \<and> cont c1 \<and> cont c2 \<and> cont c3 \<and> utf8_ok r)"

definition decode :: "string \<Rightarrow> error + string" where
  "decode bs = (if utf8_ok (map of_char bs) then Inr bs else Inl UnicodeDecodeError)"

text \<open>\<^verbatim>\<open>s.find(c)\<close> is the first position of \<open>c\<close>, or \<open>-1\<close>; \<^verbatim>\<open>s.index(c)\<close> raises
  \<^verbatim>\<open>ValueError\<close> instead.\<close>

primrec position :: "char \<Rightarrow> string \<Rightarrow> nat option" where
  "position c [] = None"
| "position c (x # xs) = (if x = c then Some 0 else map_option Suc (position c xs))"

definition str_find :: "char \<Rightarrow> string \<Rightarrow> int" where
  "str_find c s = (case position c s of None \<Rightarrow> - 1 | Some i \<Rightarrow> int i)"

definition str_index :: "char \<Rightarrow> string \<Rightarrow> error + nat" where
  "str_index c s = (case position c s of None \<Rightarrow> Inl ValueError | Some i \<Rightarrow> Inr i)"

text \<open>\<^verbatim>\<open>s.split(sep, 1)\<close>: cut at the first occurrence of \<open>sep\<close>, if there is one.\<close>

fun cut :: "string \<Rightarrow> string \<Rightarrow> (string \<times> string) option" where
  "cut sep [] = None"
| "cut sep (c # cs) =
     (if take (length sep) (c # cs) = sep then Some ([], drop (length sep) (c # cs))
      else map_option (\<lambda>(a, b). (c # a, b)) (cut sep cs))"

definition str_split1 :: "string \<Rightarrow> string \<Rightarrow> string list" where
  "str_split1 sep s = (case cut sep s of None \<Rightarrow> [s] | Some (a, b) \<Rightarrow> [a, b])"

text \<open>\<^verbatim>\<open>s.split(" ")\<close>: cut at every occurrence; the result is never empty.\<close>

fun str_split :: "char \<Rightarrow> string \<Rightarrow> string list" where
  "str_split c [] = [[]]"
| "str_split c (x # xs) =
     (if x = c then [] # str_split c xs
      else (case str_split c xs of [] \<Rightarrow> [[x]] | w # ws \<Rightarrow> (x # w) # ws))"

section \<open>Events and the line parser\<close>

text \<open>\<^verbatim>\<open>Event = namedtuple("Event", "raw line source nick user host code args msg channel")\<close>\<close>

record event =
  raw :: string
  line :: string
  source :: "string option"
  nick :: "string option"
  user :: "string option"
  host :: "string option"
  code :: string
  args :: "string list"
  msg :: string
  channel :: "string option"

text \<open>
  The prefix part of \<^verbatim>\<open>_read_message\<close>: it yields \<open>source\<close>, \<open>nick\<close>, \<open>user\<close>,
  \<open>host\<close> and the remainder \<open>msg\<close> still to be split. \<^verbatim>\<open>line[0]\<close> raises on the empty
  line, \<^verbatim>\<open>line.index(" ")\<close> on a prefix that no space follows. The slices are taken
  only where both positions are positive.
\<close>

definition read_prefix ::
  "string \<Rightarrow> error + (string option \<times> string option \<times> string option \<times> string option \<times> string)"
where
  "read_prefix ln =
     (case ln of
        [] \<Rightarrow> Inl IndexError
      | c # _ \<Rightarrow>
          if c = CHR '':'' then
            (case str_index CHR '' '' ln of
               Inl e \<Rightarrow> Inl e
             | Inr pos \<Rightarrow>
                 let src = drop 1 (take pos ln);
                     rest = drop (pos + 1) ln;
                     i = str_find CHR ''!'' src;
                     j = str_find CHR ''@'' src
                 in if i > 0 \<and> j > 0
                    then Inr (Some src, Some (take (nat i) src),
                              Some (drop (nat i + 1) (take (nat j) src)),
                              Some (drop (nat j + 1) src), rest)
                    else Inr (Some src, None, None, None, rest))
          else Inr (None, None, None, None, ln))"

text \<open>
  The parameter part: \<^verbatim>\<open>sp = msg.split(" :", 1)\<close>, \<^verbatim>\<open>code, *args = sp[0].split(" ")\<close>,
  and the trailing parameter appended when there is one.
\<close>

definition read_params :: "string \<Rightarrow> error + (string \<times> string list)" where
  "read_params m =
     (let sp = str_split1 '' :'' m in
      case str_split CHR '' '' (hd sp) of
        [] \<Rightarrow> Inl ValueError
      | c # as \<Rightarrow> Inr (c, if length sp = 2 then as @ [sp ! 1] else as))"

text \<open>
  The Event that \<^verbatim>\<open>_read_message\<close> builds from the bytes read. \<^verbatim>\<open>args[-1]\<close> and
  \<^verbatim>\<open>args[0]\<close> raise when there is no argument.
\<close>

definition parse :: "string \<Rightarrow> error + event" where
  "parse bytes =
     (let r = str_rstrip [CHR 0x0D, CHR 0x0A] bytes in
      case decode r of
        Inl e \<Rightarrow> Inl e
      | Inr ln \<Rightarrow>
          (case read_prefix ln of
             Inl e \<Rightarrow> Inl e
           | Inr (src, n, u, h, m) \<Rightarrow>
               (case read_params m of
                  Inl e \<Rightarrow> Inl e
                | Inr (c, as) \<Rightarrow>
                    (case as of
                       [] \<Rightarrow> Inl IndexError
                     | a0 # _ \<Rightarrow>
                         Inr \<lparr>raw = r, line = ln, source = src, nick = n, user = u, host = h,
                              code = c, args = as, msg = last as,
                              channel = (if CHR ''#'' \<in> set a0 then Some a0 else None)\<rparr>))))"

section \<open>Colour markup\<close>

text \<open>
  \<^verbatim>\<open>re.sub(r'\${(\w+)}', _wrap, msg)\<close> replaces the leftmost matches, left to right,
  without overlap. At a position the pattern matches when the text there is \<^verbatim>\<open>${\<close>,
  then a non-empty run of word characters, then \<^verbatim>\<open>}\<close>; the run is the longest one,
  since a closing brace is not a word character.
\<close>

definition word_char :: "char \<Rightarrow> bool" where
  "word_char c =
     (let n = (of_char c :: nat)
      in 48 \<le> n \<and> n \<le> 57 \<or> 65 \<le> n \<and> n \<le> 90 \<or> n = 95 \<or> 97 \<le> n \<and> n \<le> 122)"

definition colors :: "(string \<times> string) list" where
  "colors =
     [(''white'', ''00''), (''black'', ''01''), (''navy'', ''02''), (''green'', ''03''),
      (''red'', ''04''), (''brown'', ''05''), (''purple'', ''06''), (''orange'', ''07''),
      (''yellow'', ''08''), (''lime'', ''09''), (''teal'', ''10''), (''cyan'', ''11''),
      (''blue'', ''12''), (''pink'', ''13''), (''gray'', ''14''), (''silver'', ''15''),
      (''reset'', ''99'')]"

text \<open>\<^verbatim>\<open>_wrap\<close>: \<^verbatim>\<open>"\x03%s" % color if color else word\<close>.\<close>

definition wrap :: "string \<Rightarrow> string" where
  "wrap word =
     (case map_of colors word of
        None \<Rightarrow> word
      | Some color \<Rightarrow> if color \<noteq> [] then CHR 0x03 # color else word)"

definition match_token :: "string \<Rightarrow> (string \<times> string) option" where
  "match_token s =
     (case s of
        c1 # c2 # t \<Rightarrow>
          if c1 = CHR ''$'' \<and> c2 = CHR ''{'' \<and> takeWhile word_char t \<noteq> [] then
            (case dropWhile word_char t of
               c3 # rest \<Rightarrow> if c3 = CHR ''}'' then Some (takeWhile word_char t, rest) else None
             | [] \<Rightarrow> None)
          else None
      | _ \<Rightarrow> None)"

lemma match_token_shorter: "match_token s = Some (w, rest) \<Longrightarrow> length rest < length s"
proof -
  assume m: "match_token s = Some (w, rest)"
  then obtain c1 c2 t where s: "s = c1 # c2 # t" and d: "dropWhile word_char t = CHR ''}'' # rest"
    by (auto simp: match_token_def split: list.splits if_splits)
  have "length (dropWhile word_char t) \<le> length t"
    by (rule length_dropWhile_le)
  with s d show ?thesis by simp
qed

function color_wrap :: "string \<Rightarrow> string" where
  "color_wrap [] = []"
| "color_wrap (c # cs) =
     (case match_token (c # cs) of
        Some (word, rest) \<Rightarrow> wrap word @ color_wrap rest
      | None \<Rightarrow> c # color_wrap cs)"
  by pat_completeness auto
termination
  by (relation "measure length") (auto dest: match_token_shorter)

section \<open>Highlights\<close>

text \<open>
  \<^verbatim>\<open>HIGHLIGHTS\<close> is read from the settings file: a dictionary from a channel name (or
  \<^verbatim>\<open>"all"\<close>) to a list of triggers, each a string or a list of strings.
\<close>

datatype trigger = Single string | All "string list"

type_synonym highlights = "string \<rightharpoonup> trigger list"

definition lower_char :: "char \<Rightarrow> char" where
  "lower_char c =
     (case map_of (zip ''ABCDEFGHIJKLMNOPQRSTUVWXYZ'' ''abcdefghijklmnopqrstuvwxyz'') c of
        None \<Rightarrow> c
      | Some l \<Rightarrow> l)"

definition str_lower :: "string \<Rightarrow> string" where
  "str_lower s = map lower_char s"

text \<open>\<^verbatim>\<open>h in msg\<close> on strings: \<open>h\<close> occurs in \<open>msg\<close> as a contiguous piece.\<close>

fun str_in :: "string \<Rightarrow> string \<Rightarrow> bool" where
  "str_in h [] = (h = [])"
| "str_in h (c # cs) = (take (length h) (c # cs) = h \<or> str_in h cs)"

text \<open>\<^verbatim>\<open>d.get(k, [])\<close>\<close>

definition get_list :: "('k \<rightharpoonup> 'v list) \<Rightarrow> 'k \<Rightarrow> 'v list" where
  "get_list d k = (case d k of None \<Rightarrow> [] | Some v \<Rightarrow> v)"

text \<open>
  \<^verbatim>\<open>get_highlights_for\<close> is a generator; its body runs when the loop of
  \<^verbatim>\<open>contains_highlight\<close> asks for the first trigger. \<^verbatim>\<open>channel.strip("#")\<close> raises
  \<^verbatim>\<open>AttributeError\<close> when the channel is \<^verbatim>\<open>None\<close>.
\<close>

definition get_highlights_for :: "highlights \<Rightarrow> string option \<Rightarrow> error + trigger list" where
  "get_highlights_for HIGHLIGHTS chan =
     (case chan of
        None \<Rightarrow> Inl AttributeError
      | Some c \<Rightarrow>
          Inr (get_list HIGHLIGHTS ''all'' @ get_list HIGHLIGHTS (str_strip ''#'' c)))"

section \<open>The client and what it does to its surroundings\<close>

datatype handler = Ping_insights

record response =
  status_code :: nat
  resp_text :: string

record request =
  url :: string
  json :: "(string \<times> string) list"

text \<open>
  A log record keeps the place that logged and the values it was given, not the rendered
  line. The two \<^verbatim>\<open>logger.error\<close> calls are \<open>Not_connected\<close> and \<open>No_destination\<close>; all
  the others are \<^verbatim>\<open>logger.debug\<close> calls.
\<close>

datatype log_record =
    Found trigger
  | Saw_highlight_ping
  | Response_text string
  | Channel_message string "string option" string
  | Sending string
  | Not_connected string string
  | No_destination string

fun is_error :: "log_record \<Rightarrow> bool" where
  "is_error (Not_connected u c) = True"
| "is_error (No_destination u) = True"
| "is_error r = False"

text \<open>
  The fields of \<^verbatim>\<open>IRCClient\<close> that the modelled methods touch, followed by the effects
  on the surroundings: \<open>stream\<close> is \<open>None\<close> before \<^verbatim>\<open>connect\<close> and otherwise holds the
  byte strings written so far; \<open>reading\<close> counts the \<^verbatim>\<open>read_until\<close> callbacks
  registered; \<open>spawned\<close> are the calls handed to \<^verbatim>\<open>io_loop.spawn_callback\<close>;
  \<open>posted\<close> are the requests made with \<^verbatim>\<open>requests.post\<close>; \<open>logged\<close> is the log.
\<close>

record irc_client =
  stream :: "string list option"
  channels :: "string set"
  most_recent_highlight_channel :: "string option"
  most_recent_highlight_nick :: "string option"
  reading :: nat
  spawned :: "(handler \<times> event) list"
  posted :: "request list"
  logged :: "log_record list"

definition log_it :: "log_record \<Rightarrow> irc_client \<Rightarrow> irc_client" where
  "log_it r irc = irc\<lparr>logged := logged irc @ [r]\<rparr>"

text \<open>
  A method returns its result, or the exception it raised, together with the client as
  the call left it: what was mutated before a raise stays mutated.
\<close>

type_synonym 'a outcome = "(error + 'a) \<times> irc_client"

definition send_message :: "string \<Rightarrow> irc_client \<Rightarrow> unit outcome" where
  "send_message ln irc =
     (let irc1 = log_it (Sending ln) irc in
      case stream irc1 of
        None \<Rightarrow> (Inl AttributeError, irc1)
      | Some written \<Rightarrow> (Inr (), irc1\<lparr>stream := Some (written @ [ln @ [CHR 0x0D, CHR 0x0A]])\<rparr>))"

definition send_to_channel :: "string \<Rightarrow> string \<Rightarrow> irc_client \<Rightarrow> unit outcome" where
  "send_to_channel chan ln irc = send_message (''PRIVMSG '' @ chan @ '' :'' @ color_wrap ln) irc"

definition join :: "string \<Rightarrow> irc_client \<Rightarrow> unit outcome" where
  "join chan irc =
     send_message (''JOIN #'' @ chan) (irc\<lparr>channels := insert (CHR ''#'' # chan) (channels irc)\<rparr>)"

definition wait_for_input :: "irc_client \<Rightarrow> unit outcome" where
  "wait_for_input irc =
     (case stream irc of
        None \<Rightarrow> (Inl AttributeError, irc)
      | Some written \<Rightarrow> (Inr (), irc\<lparr>reading := reading irc + 1\<rparr>))"

text \<open>\<^verbatim>\<open>IRC_COMMAND_REGISTRY\<close>, as the \<^verbatim>\<open>@command\<close> decorators of the module fill it.\<close>

definition IRC_COMMAND_REGISTRY :: "(string \<times> handler) list" where
  "IRC_COMMAND_REGISTRY = [(''ping'', Ping_insights)]"

definition dispatch :: "(string \<times> handler) list \<Rightarrow> event \<Rightarrow> irc_client \<Rightarrow> unit outcome" where
  "dispatch registry ev irc =
     (Inr (), irc\<lparr>spawned := spawned irc @ map (\<lambda>(k, v). (v, ev)) registry\<rparr>)"

definition handle_event :: "(string \<times> handler) list \<Rightarrow> event \<Rightarrow> irc_client \<Rightarrow> unit outcome" where
  "handle_event registry ev irc =
     (case (if code ev = ''PING''
            then (case args ev of
                    [] \<Rightarrow> (Inl IndexError, irc)
                  | a0 # _ \<Rightarrow> send_message (''PONG '' @ a0) irc)
            else dispatch registry ev irc) of
        (Inl e, irc1) \<Rightarrow> (Inl e, irc1)
      | (Inr _, irc1) \<Rightarrow> wait_for_input irc1)"

definition read_message :: "(string \<times> handler) list \<Rightarrow> string \<Rightarrow> irc_client \<Rightarrow> unit outcome" where
  "read_message registry bytes irc =
     (case parse bytes of
        Inl e \<Rightarrow> (Inl e, irc)
      | Inr ev \<Rightarrow>
          handle_event registry ev
            (case channel ev of
               None \<Rightarrow> irc
             | Some c \<Rightarrow>
                 if c \<noteq> [] \<and> str_in ''MSG'' (code ev)
                 then log_it (Channel_message c (nick ev) (msg ev)) irc
                 else irc))"

section \<open>The bridge handlers\<close>

fun matches :: "string \<Rightarrow> trigger \<Rightarrow> bool" where
  "matches m (All hl) = list_all (\<lambda>h. str_in h m) hl"
| "matches m (Single hl) = str_in hl m"

text \<open>The loop of \<^verbatim>\<open>contains_highlight\<close>: it returns at the first trigger that matches.\<close>

fun highlight_loop :: "string \<Rightarrow> trigger list \<Rightarrow> irc_client \<Rightarrow> bool \<times> irc_client" where
  "highlight_loop m [] irc = (False, irc)"
| "highlight_loop m (hl # hls) irc =
     (if matches m hl then (True, log_it (Found hl) irc) else highlight_loop m hls irc)"

definition contains_highlight :: "highlights \<Rightarrow> event \<Rightarrow> irc_client \<Rightarrow> bool outcome" where
  "contains_highlight HIGHLIGHTS ev irc =
     (let m = str_lower (msg ev) in
      if code ev \<noteq> ''PRIVMSG'' then (Inr False, irc)
      else (case get_highlights_for HIGHLIGHTS (channel ev) of
              Inl e \<Rightarrow> (Inl e, irc)
            | Inr hls \<Rightarrow> (case highlight_loop m hls irc of (b, irc1) \<Rightarrow> (Inr b, irc1))))"

text \<open>\<^verbatim>\<open>f"{x}"\<close> of a value that may be \<^verbatim>\<open>None\<close>.\<close>

definition fmt :: "string option \<Rightarrow> string" where
  "fmt x = (case x of None \<Rightarrow> ''None'' | Some s \<Rightarrow> s)"

text \<open>
  \<^verbatim>\<open>ping_insights\<close>. The webhook address \<open>hook_url\<close> comes from the settings;
  \<open>post\<close> stands for \<^verbatim>\<open>requests.post\<close>: it answers a request with a response, whatever
  its status, or raises.
\<close>

definition ping_insights ::
  "highlights \<Rightarrow> string \<Rightarrow> (request \<Rightarrow> error + response) \<Rightarrow> event \<Rightarrow> irc_client \<Rightarrow> unit outcome"
where
  "ping_insights HIGHLIGHTS hook_url post ev irc =
     (case contains_highlight HIGHLIGHTS ev irc of
        (Inl e, irc1) \<Rightarrow> (Inl e, irc1)
      | (Inr False, irc1) \<Rightarrow> (Inr (), irc1)
      | (Inr True, irc1) \<Rightarrow>
          (let irc2 = log_it Saw_highlight_ping irc1;
               req = \<lparr>url = hook_url,
                      json = [(''text'', ''('' @ fmt (channel ev) @ '') '' @ fmt (nick ev)
                                          @ '' says: '' @ msg ev)]\<rparr>;
               irc3 = irc2\<lparr>posted := posted irc2 @ [req]\<rparr>
           in case post req of
                Inl e \<Rightarrow> (Inl e, irc3)
              | Inr resp \<Rightarrow>
                  (Inr (), (log_it (Response_text (resp_text resp)) irc3)
                             \<lparr>most_recent_highlight_channel := channel ev,
                              most_recent_highlight_nick := nick ev\<rparr>)))"

text \<open>\<^verbatim>\<open>send_from_slack\<close>\<close>

definition send_from_slack :: "string \<Rightarrow> string \<Rightarrow> irc_client \<Rightarrow> unit outcome" where
  "send_from_slack usr m irc =
     (if CHR '':'' \<in> set m then
        (case str_split1 '':'' m of
           [c, m1] \<Rightarrow>
             (let chan = CHR ''#'' # str_strip ''#'' c;
                  m2 = str_strip whitespace m1;
                  irc1 = (if chan \<notin> channels irc then log_it (Not_connected usr chan) irc
                          else irc)
              in send_to_channel chan (''[slack] @'' @ usr @ '' said '' @ [CHR 0x27] @ m2 @ [CHR 0x27]) irc1)
         | _ \<Rightarrow> (Inl ValueError, irc))
      else (case most_recent_highlight_channel irc of
              None \<Rightarrow> (Inr (), log_it (No_destination usr) irc)
            | Some chan \<Rightarrow>
                if chan \<noteq> []
                then send_to_channel chan (''[slack] @'' @ usr @ '' said '' @ [CHR 0x27] @ m @ [CHR 0x27]) irc
                else (Inr (), log_it (No_destination usr) irc)))"

text \<open>\<^verbatim>\<open>IRCClient.__init__\<close>: no stream, no channel, no highlight seen.\<close>

definition init :: irc_client where
  "init = \<lparr>stream = None, channels = {}, most_recent_highlight_channel = None,
           most_recent_highlight_nick = None, reading = 0, spawned = [], posted = [],
           logged = []\<rparr>"

section \<open>What the specification says, in its own words\<close>



text \<open>
  The remainder of a line once its prefix is taken off, and the lines from which the
  parser can build an Event: not empty, a space after the prefix when there is one, and
  a space in the remainder, so that the command has at least one argument.
\<close>

definition remainder :: "string \<Rightarrow> string" where
  "remainder ln =
     (if take 1 ln = '':'' then tl (dropWhile (\<lambda>c. c \<noteq> CHR '' '') ln) else ln)"

definition well_formed :: "string \<Rightarrow> bool" where
  "well_formed ln =
     (ln \<noteq> [] \<and> (take 1 ln = '':'' \<longrightarrow> CHR '' '' \<in> set ln) \<and> CHR '' '' \<in> set (remainder ln))"





section \<open>Sample data\<close>

text \<open>A client whose stream is attached and has written nothing yet.\<close>

definition connected :: irc_client where
  "connected = init\<lparr>stream := Some []\<rparr>"

text \<open>The rule set \<^verbatim>\<open>{"all": ["urgent"], "dev": [["build", "failed"]]}\<close>.\<close>

definition sample_highlights :: highlights where
  "sample_highlights =
     [''all'' \<mapsto> [Single ''urgent''], ''dev'' \<mapsto> [All [''build'', ''failed'']]]"

text \<open>
  The events of four lines: a channel message, a private message, a numeric reply of the
  server, a PING.
\<close>

definition ev_build :: event where
  "ev_build =
     \<lparr>raw = '':alice!al@example.org PRIVMSG #dev :the BUILD failed today'',
      line = '':alice!al@example.org PRIVMSG #dev :the BUILD failed today'',
      source = Some ''alice!al@example.org'', nick = Some ''alice'', user = Some ''al'',
      host = Some ''example.org'', code = ''PRIVMSG'',
      args = [''#dev'', ''the BUILD failed today''], msg = ''the BUILD failed today'',
      channel = Some ''#dev''\<rparr>"

definition ev_private :: event where
  "ev_private =
     \<lparr>raw = '':alice!al@example.org PRIVMSG wormhole :this is urgent'',
      line = '':alice!al@example.org PRIVMSG wormhole :this is urgent'',
      source = Some ''alice!al@example.org'', nick = Some ''alice'', user = Some ''al'',
      host = Some ''example.org'', code = ''PRIVMSG'',
      args = [''wormhole'', ''this is urgent''], msg = ''this is urgent'',
      channel = None\<rparr>"

definition ev_welcome :: event where
  "ev_welcome =
     \<lparr>raw = '':irc.example.org 001 wormhole :Welcome'',
      line = '':irc.example.org 001 wormhole :Welcome'',
      source = Some ''irc.example.org'', nick = None, user = None, host = None,
      code = ''001'', args = [''wormhole'', ''Welcome''], msg = ''Welcome'',
      channel = None\<rparr>"

definition ev_ping :: event where
  "ev_ping =
     \<lparr>raw = ''PING :server.example'', line = ''PING :server.example'', source = None,
      nick = None, user = None, host = None, code = ''PING'', args = [''server.example''],
      msg = ''server.example'', channel = None\<rparr>"

text \<open>A webhook that answers every request with a server error.\<close>

definition server_error :: "request \<Rightarrow> error + response" where
  "server_error req = Inr \<lparr>status_code = 500, resp_text = ''Internal Server Error''\<rparr>"

text \<open>A webhook that accepts every request, and one that cannot be reached.\<close>

definition accepted :: "request \<Rightarrow> error + response" where
  "accepted req = Inr \<lparr>status_code = 200, resp_text = ''ok''\<rparr>"

definition unreachable :: "request \<Rightarrow> error + response" where
  "unreachable req = Inl RequestException"

section \<open>Facts about the string operations\<close>


lemma position_None: "position c s = None \<longleftrightarrow> c \<notin> set s"
  by (induction s) auto

lemma position_Some:
  "position c s = Some i \<Longrightarrow>
     i = length (takeWhile (\<lambda>x. x \<noteq> c) s) \<and> take i s = takeWhile (\<lambda>x. x \<noteq> c) s \<and>
     drop (Suc i) s = tl (dropWhile (\<lambda>x. x \<noteq> c) s)"
  by (induction s arbitrary: i) (auto split: if_splits)

lemma str_find_pos:
  "0 < str_find c s \<longleftrightarrow> c \<in> set s \<and> take 1 s \<noteq> [c]"
proof (cases "position c s")
  case None
  then have "c \<notin> set s" by (simp add: position_None)
  with None show ?thesis by (simp add: str_find_def)
next
  case (Some i)
  then have "c \<in> set s" using position_None [of c s] by auto
  with Some show ?thesis by (cases s) (auto simp: str_find_def split: if_splits)
qed

lemma str_find_nat:
  "0 < str_find c s \<Longrightarrow> nat (str_find c s) = length (takeWhile (\<lambda>x. x \<noteq> c) s)"
  by (auto simp: str_find_def split: option.splits dest: position_Some)

lemma str_split_not_Nil: "str_split c s \<noteq> []"
  by (induction s) (auto split: list.splits)

lemma str_split_tl: "tl (str_split c s) = [] \<longleftrightarrow> c \<notin> set s"
  by (induction s) (auto split: list.splits simp: str_split_not_Nil)

lemma cut_Some: "cut sep s = Some (a, b) \<Longrightarrow> s = a @ sep @ b"
proof (induction s arbitrary: a)
  case Nil
  then show ?case by simp
next
  case (Cons c cs)
  show ?case
  proof (cases "take (length sep) (c # cs) = sep")
    case True
    with Cons.prems have "a = []" "b = drop (length sep) (c # cs)" by auto
    with True show ?thesis by (metis append_Nil append_take_drop_id)
  next
    case False
    with Cons.prems obtain a' where "cut sep cs = Some (a', b)" "a = c # a'"
      by auto
    with Cons.IH show ?thesis by auto
  qed
qed

lemma read_params_args:
  "\<exists>c as. read_params m = Inr (c, as) \<and> (as \<noteq> [] \<longleftrightarrow> CHR '' '' \<in> set m)"
proof (cases "cut '' :'' m")
  case None
  obtain c as where s: "str_split CHR '' '' m = c # as"
    using str_split_not_Nil [of "CHR '' ''" m] by (cases "str_split CHR '' '' m") auto
  have "as = [] \<longleftrightarrow> CHR '' '' \<notin> set m"
    using str_split_tl [of "CHR '' ''" m] s by simp
  with None s show ?thesis by (simp add: read_params_def str_split1_def)
next
  case (Some p)
  obtain a b where p: "p = (a, b)" by (cases p)
  obtain c as where s: "str_split CHR '' '' a = c # as"
    using str_split_not_Nil [of "CHR '' ''" a] by (cases "str_split CHR '' '' a") auto
  have "m = a @ '' :'' @ b" using Some p cut_Some by blast
  then have "CHR '' '' \<in> set m" by simp
  with Some p s show ?thesis by (simp add: read_params_def str_split1_def)
qed

lemma take_1_eq: "take 1 ln = [c] \<longleftrightarrow> ln \<noteq> [] \<and> hd ln = c"
  by (cases ln) auto

lemma read_prefix_alt:
  "read_prefix ln =
     (if ln = [] then Inl IndexError
      else if take 1 ln = '':'' then
        (case str_index CHR '' '' ln of
           Inl e \<Rightarrow> Inl e
         | Inr pos \<Rightarrow>
             let src = drop 1 (take pos ln);
                 rest = drop (pos + 1) ln;
                 i = str_find CHR ''!'' src;
                 j = str_find CHR ''@'' src
             in if i > 0 \<and> j > 0
                then Inr (Some src, Some (take (nat i) src),
                          Some (drop (nat i + 1) (take (nat j) src)),
                          Some (drop (nat j + 1) src), rest)
                else Inr (Some src, None, None, None, rest))
      else Inr (None, None, None, None, ln))"
proof (cases ln)
  case Nil
  then show ?thesis by (simp add: read_prefix_def)
next
  case (Cons c cs)
  show ?thesis unfolding Cons by (simp add: read_prefix_def)
qed

lemma str_index_eq:
  "str_index c s =
     (if c \<in> set s then Inr (length (takeWhile (\<lambda>x. x \<noteq> c) s)) else Inl ValueError)"
proof (cases "position c s")
  case None
  then have "c \<notin> set s" by (simp add: position_None)
  with None show ?thesis by (simp add: str_index_def)
next
  case (Some i)
  then have "c \<in> set s" using position_None [of c s] by auto
  moreover have "i = length (takeWhile (\<lambda>x. x \<noteq> c) s)" using position_Some [OF Some] by blast
  ultimately show ?thesis using Some by (simp add: str_index_def)
qed

lemma drop_Suc_takeWhile:
  "drop (length (takeWhile P s) + 1) s = tl (dropWhile P s)"
  by (induction s) auto

lemma take_length_takeWhile: "take (length (takeWhile P s)) s = takeWhile P s"
  by (rule takeWhile_eq_take [symmetric])

lemma read_prefix_cases:
  "read_prefix ln =
     (if ln = [] then Inl IndexError
      else if take 1 ln = '':'' \<and> CHR '' '' \<notin> set ln then Inl ValueError
      else if take 1 ln = '':'' then
        (let src = drop 1 (takeWhile (\<lambda>c. c \<noteq> CHR '' '') ln);
             i = str_find CHR ''!'' src; j = str_find CHR ''@'' src
         in if i > 0 \<and> j > 0
            then Inr (Some src, Some (take (nat i) src), Some (drop (nat i + 1) (take (nat j) src)),
                      Some (drop (nat j + 1) src), remainder ln)
            else Inr (Some src, None, None, None, remainder ln))
      else Inr (None, None, None, None, remainder ln))"
  by (simp add: read_prefix_alt str_index_eq drop_Suc_takeWhile take_length_takeWhile
      remainder_def Let_def del: One_nat_def)

lemma parse_cases:
  "parse bytes =
     (let ln = str_rstrip [CHR 0x0D, CHR 0x0A] bytes in
      if \<not> utf8_ok (map of_char ln) then Inl UnicodeDecodeError
      else case read_prefix ln of
             Inl e \<Rightarrow> Inl e
           | Inr (src, n, u, h, m) \<Rightarrow>
               (case read_params m of
                  Inl e \<Rightarrow> Inl e
                | Inr (c, as) \<Rightarrow>
                    if as = [] then Inl IndexError
                    else Inr \<lparr>raw = ln, line = ln, source = src, nick = n, user = u, host = h,
                              code = c, args = as, msg = last as,
                              channel = (if CHR ''#'' \<in> set (hd as) then Some (hd as) else None)\<rparr>))"
  by (auto simp: parse_def decode_def Let_def split: sum.splits prod.splits list.splits)

lemma parse_args_nonempty: "parse bytes = Inr ev \<Longrightarrow> args ev \<noteq> []"
  by (auto simp: parse_def Let_def split: sum.splits prod.splits list.splits)

lemma parse_prefix_params:
  assumes "parse bytes = Inr ev"
  shows "\<exists>m. read_prefix (line ev) = Inr (source ev, nick ev, user ev, host ev, m) \<and>
             read_params m = Inr (code ev, args ev)"
  using assms
  by (auto simp: parse_def decode_def Let_def split: sum.splits prod.splits list.splits if_splits)

lemmas parse_eval =
  parse_def str_rstrip_def decode_def cont_def read_prefix_def str_index_def str_find_def
  read_params_def str_split1_def Let_def

lemma parse_ev_build:
  "parse ('':alice!al@example.org PRIVMSG #dev :the BUILD failed today'' @ [CHR 0x0D, CHR 0x0A])
     = Inr ev_build"
  by (simp add: parse_eval ev_build_def)

lemma parse_ev_private:
  "parse ('':alice!al@example.org PRIVMSG wormhole :this is urgent'' @ [CHR 0x0D, CHR 0x0A])
     = Inr ev_private"
  by (simp add: parse_eval ev_private_def)

lemma parse_ev_welcome:
  "parse ('':irc.example.org 001 wormhole :Welcome'' @ [CHR 0x0D, CHR 0x0A]) = Inr ev_welcome"
  by (simp add: parse_eval ev_welcome_def)


section \<open>Facts about re-joining\<close>








section \<open>Facts about the colour markup\<close>









section \<open>Facts about the highlight scan\<close>




lemma highlight_loop_eq:
  "highlight_loop m hls irc =
     (list_ex (matches m) hls,
      case List.find (matches m) hls of None \<Rightarrow> irc | Some hl \<Rightarrow> log_it (Found hl) irc)"
  by (induction hls) auto

lemma contains_highlight_frame:
  "snd (contains_highlight HIGHLIGHTS ev irc) =
     irc\<lparr>logged := logged (snd (contains_highlight HIGHLIGHTS ev irc))\<rparr>"
  by (simp add: contains_highlight_def highlight_loop_eq log_it_def
      split: sum.splits option.splits)

lemma contains_highlight_true_channel:
  "fst (contains_highlight HIGHLIGHTS ev irc) = Inr True \<Longrightarrow> \<exists>c. channel ev = Some c"
  by (auto simp: contains_highlight_def get_highlights_for_def split: if_splits option.splits)

lemmas highlight_eval =
  contains_highlight_def get_highlights_for_def get_list_def sample_highlights_def
  str_strip_def str_rstrip_def str_lower_def lower_char_def connected_def init_def log_it_def

section \<open>The claims\<close>

text \<open>
  C1. The claim: an inbound message whose body contains a colon and names a channel that
  is not joined is logged as an error and nothing is sent to IRC. The code logs the
  error and then goes on to send: the branch has no \<^verbatim>\<open>return\<close>, unlike the branch for
  a message without destination. Here are the body \<^verbatim>\<open>general: deploy done\<close> from user
  \<^verbatim>\<open>bob\<close> and a client that has joined no channel: the error is logged and the
  \<^verbatim>\<open>PRIVMSG\<close> line for \<^verbatim>\<open>#general\<close> is written to the stream all the same.
\<close>

theorem send_from_slack_unjoined_sends:
  "''#general'' \<notin> channels connected \<and>
   is_error (Not_connected ''bob'' ''#general'') \<and>
   fst (send_from_slack ''bob'' ''general: deploy done'' connected) = Inr () \<and>
   logged (snd (send_from_slack ''bob'' ''general: deploy done'' connected)) =
     [Not_connected ''bob'' ''#general'',
      Sending (''PRIVMSG #general :[slack] @bob said '' @ [CHR 0x27] @ ''deploy done'' @ [CHR 0x27])] \<and>
   stream (snd (send_from_slack ''bob'' ''general: deploy done'' connected)) =
     Some [''PRIVMSG #general :[slack] @bob said '' @ [CHR 0x27] @ ''deploy done''
           @ [CHR 0x27, CHR 0x0D, CHR 0x0A]]"
  by (simp add: send_from_slack_def str_split1_def str_strip_def str_rstrip_def whitespace_def
      connected_def init_def send_to_channel_def send_message_def log_it_def match_token_def
      Let_def)

text \<open>
  C2, as the claim states it, fails: the parser raises on the empty line, on a prefix that
  no space follows, and on a command without parameter.
\<close>

theorem parse_not_total:
  "parse [CHR 0x0D, CHR 0x0A] = Inl IndexError \<and>
   parse ('':irc.example.org'' @ [CHR 0x0D, CHR 0x0A]) = Inl ValueError \<and>
   parse (''QUIT'' @ [CHR 0x0D, CHR 0x0A]) = Inl IndexError"
  by (simp add: parse_eval)

text \<open>
  C2, amended. The parser is partial. With the line terminators stripped, it raises
  \<^verbatim>\<open>UnicodeDecodeError\<close> on bytes that are not UTF-8, \<^verbatim>\<open>IndexError\<close> on the empty line,
  \<^verbatim>\<open>ValueError\<close> on a line that starts with a colon and has no space, and \<^verbatim>\<open>IndexError\<close>
  on a line whose remainder has no space (a command without parameter). On every other
  line it produces an Event, whose \<open>args\<close> is not empty, whose \<open>msg\<close> is the last
  argument, and whose \<open>source\<close>, \<open>nick\<close>, \<open>user\<close> and \<open>host\<close> are unset when the
  line has no prefix.
\<close>

theorem parse_partial:
  assumes "ln = str_rstrip [CHR 0x0D, CHR 0x0A] bytes"
  shows "(\<not> utf8_ok (map of_char ln) \<longrightarrow> parse bytes = Inl UnicodeDecodeError) \<and>
         (utf8_ok (map of_char ln) \<and> ln = [] \<longrightarrow> parse bytes = Inl IndexError) \<and>
         (utf8_ok (map of_char ln) \<and> take 1 ln = '':'' \<and> CHR '' '' \<notin> set ln \<longrightarrow>
            parse bytes = Inl ValueError) \<and>
         (utf8_ok (map of_char ln) \<and> ln \<noteq> [] \<and> (take 1 ln = '':'' \<longrightarrow> CHR '' '' \<in> set ln) \<and>
          CHR '' '' \<notin> set (remainder ln) \<longrightarrow> parse bytes = Inl IndexError) \<and>
         (utf8_ok (map of_char ln) \<and> well_formed ln \<longrightarrow>
            (\<exists>ev. parse bytes = Inr ev \<and> line ev = ln \<and> args ev \<noteq> [] \<and>
                  msg ev = last (args ev) \<and>
                  (take 1 ln \<noteq> '':'' \<longrightarrow>
                     source ev = None \<and> nick ev = None \<and> user ev = None \<and> host ev = None)))"
proof -
  obtain c as where p: "read_params (remainder ln) = Inr (c, as)"
    and a: "as \<noteq> [] \<longleftrightarrow> CHR '' '' \<in> set (remainder ln)"
    using read_params_args [of "remainder ln"] by blast
  show ?thesis
    using p a
    by (auto simp: parse_cases assms [symmetric] read_prefix_cases well_formed_def Let_def)
qed

text \<open>
  The amended C2 at two lines: \<^verbatim>\<open>PING :server.example\<close> is well formed and yields an
  Event without prefix fields; \<^verbatim>\<open>QUIT\<close> has no space in its remainder and raises.
\<close>

theorem parse_partial_witness:
  "utf8_ok (map of_char ''PING :server.example'') \<and> well_formed ''PING :server.example'' \<and>
   take 1 ''PING :server.example'' \<noteq> '':'' \<and>
   parse (''PING :server.example'' @ [CHR 0x0D, CHR 0x0A]) = Inr ev_ping \<and>
   source ev_ping = None \<and> args ev_ping \<noteq> [] \<and>
   utf8_ok (map of_char ''QUIT'') \<and> CHR '' '' \<notin> set (remainder ''QUIT'') \<and>
   parse (''QUIT'' @ [CHR 0x0D, CHR 0x0A]) = Inl IndexError"
  using parse_partial [of "''PING :server.example''" "''PING :server.example'' @ [CHR 0x0D, CHR 0x0A]"]
    parse_partial [of "''QUIT''" "''QUIT'' @ [CHR 0x0D, CHR 0x0A]"]
  by (simp add: parse_eval ev_ping_def well_formed_def remainder_def)

text \<open>
  C3, as the claim states it, fails: in the prefix \<^verbatim>\<open>ops@irc!relay\<close> the \<^verbatim>\<open>@\<close> comes
  before the \<^verbatim>\<open>!\<close>, and the parser sets all three fields all the same, \<open>user\<close> to
  the empty string.
\<close>

theorem nick_user_host_wrong_order:
  "parse ('':ops@irc!relay PRIVMSG #dev :hi'' @ [CHR 0x0D, CHR 0x0A]) =
     Inr \<lparr>raw = '':ops@irc!relay PRIVMSG #dev :hi'', line = '':ops@irc!relay PRIVMSG #dev :hi'',
          source = Some ''ops@irc!relay'', nick = Some ''ops@irc'', user = Some [],
          host = Some ''irc!relay'', code = ''PRIVMSG'', args = [''#dev'', ''hi''],
          msg = ''hi'', channel = Some ''#dev''\<rparr>"
  by (simp add: parse_eval)

text \<open>
  C3, amended. For every parsed line with a \<^verbatim>\<open>:\<close> prefix, the parser sets \<open>nick\<close>,
  \<open>user\<close> and \<open>host\<close> exactly when the source contains both \<^verbatim>\<open>!\<close> and \<^verbatim>\<open>@\<close> and
  begins with neither, whatever their order: \<open>nick\<close> is the text before the first
  \<^verbatim>\<open>!\<close>, \<open>host\<close> the text after the first \<^verbatim>\<open>@\<close>, \<open>user\<close> what lies after the first
  \<^verbatim>\<open>!\<close> in the text before the first \<^verbatim>\<open>@\<close>. In every other case all three fields are
  left unset together, even though \<open>source\<close> is set.
\<close>

theorem nick_user_host:
  assumes "parse bytes = Inr ev" and "source ev = Some src"
  shows "take 1 (line ev) = '':'' \<and>
         (if CHR ''!'' \<in> set src \<and> CHR ''@'' \<in> set src \<and> take 1 src \<noteq> ''!'' \<and> take 1 src \<noteq> ''@''
          then nick ev = Some (takeWhile (\<lambda>c. c \<noteq> CHR ''!'') src) \<and>
               user ev = Some (drop (Suc (length (takeWhile (\<lambda>c. c \<noteq> CHR ''!'') src)))
                                 (takeWhile (\<lambda>c. c \<noteq> CHR ''@'') src)) \<and>
               host ev = Some (tl (dropWhile (\<lambda>c. c \<noteq> CHR ''@'') src))
          else nick ev = None \<and> user ev = None \<and> host ev = None)"
proof -
  obtain m where p: "read_prefix (line ev) = Inr (source ev, nick ev, user ev, host ev, m)"
    using parse_prefix_params [OF assms(1)] by blast
  have i: "0 < str_find CHR ''!'' src \<longleftrightarrow> CHR ''!'' \<in> set src \<and> take 1 src \<noteq> ''!''"
    and j: "0 < str_find CHR ''@'' src \<longleftrightarrow> CHR ''@'' \<in> set src \<and> take 1 src \<noteq> ''@''"
    by (rule str_find_pos)+
  have ni: "0 < str_find CHR ''!'' src \<Longrightarrow>
              nat (str_find CHR ''!'' src) = length (takeWhile (\<lambda>c. c \<noteq> CHR ''!'') src)"
    and nj: "0 < str_find CHR ''@'' src \<Longrightarrow>
              nat (str_find CHR ''@'' src) = length (takeWhile (\<lambda>c. c \<noteq> CHR ''@'') src)"
    by (rule str_find_nat, assumption)+
  from p assms(2) have s: "take 1 (line ev) = '':''"
    and q: "(let i = str_find CHR ''!'' src; j = str_find CHR ''@'' src
             in if i > 0 \<and> j > 0
                then nick ev = Some (take (nat i) src) \<and>
                     user ev = Some (drop (nat i + 1) (take (nat j) src)) \<and>
                     host ev = Some (drop (nat j + 1) src)
                else nick ev = None \<and> user ev = None \<and> host ev = None)"
    by (auto simp: read_prefix_cases Let_def split: if_splits)
  show ?thesis
  proof (cases "0 < str_find CHR ''!'' src \<and> 0 < str_find CHR ''@'' src")
    case True
    with q ni nj i j s show ?thesis
      by (simp add: Let_def take_length_takeWhile drop_Suc_takeWhile Suc_eq_plus1
          del: One_nat_def)
  next
    case False
    with q i j s show ?thesis by (auto simp: Let_def)
  qed
qed

text \<open>
  The amended C3 on the prefix \<^verbatim>\<open>alice!al@example.org\<close>, where the three fields are
  set, and on the server prefix \<^verbatim>\<open>irc.example.org\<close>, where they are not.
\<close>

theorem nick_user_host_witness:
  "parse ('':alice!al@example.org PRIVMSG #dev :the BUILD failed today'' @ [CHR 0x0D, CHR 0x0A])
     = Inr ev_build \<and>
   source ev_build = Some ''alice!al@example.org'' \<and>
   nick ev_build = Some ''alice'' \<and> user ev_build = Some ''al'' \<and>
   host ev_build = Some ''example.org'' \<and>
   parse ('':irc.example.org 001 wormhole :Welcome'' @ [CHR 0x0D, CHR 0x0A]) = Inr ev_welcome \<and>
   source ev_welcome = Some ''irc.example.org'' \<and>
   nick ev_welcome = None \<and> user ev_welcome = None \<and> host ev_welcome = None"
proof -
  have b: "source ev_build = Some ''alice!al@example.org''"
    by (simp add: ev_build_def)
  have w: "source ev_welcome = Some ''irc.example.org''"
    by (simp add: ev_welcome_def)
  show ?thesis
    using nick_user_host [OF parse_ev_build b] nick_user_host [OF parse_ev_welcome w]
      parse_ev_build parse_ev_welcome b w
    by simp
qed

text \<open>
  C4. For an event with code \<^verbatim>\<open>PING\<close>, \<^verbatim>\<open>handle_event\<close> itself writes exactly the line
  \<^verbatim>\<open>PONG <first argument>\<close> to the stream and hands the event to no handler; for an
  event with any other code it hands the event to every handler of the registry, in the
  registry's order, and writes nothing. The stream is attached, as it is whenever a line
  has been read, and a \<^verbatim>\<open>PING\<close> event has a first argument, as every event of the
  parser has (\<open>parse_args_nonempty\<close>).
\<close>

theorem handle_event_ping_or_dispatch:
  assumes "stream irc = Some written"
  shows "(code ev = ''PING'' \<and> args ev = a0 # as \<longrightarrow>
            fst (handle_event registry ev irc) = Inr () \<and>
            stream (snd (handle_event registry ev irc)) =
              Some (written @ [''PONG '' @ a0 @ [CHR 0x0D, CHR 0x0A]]) \<and>
            spawned (snd (handle_event registry ev irc)) = spawned irc) \<and>
         (code ev \<noteq> ''PING'' \<longrightarrow>
            fst (handle_event registry ev irc) = Inr () \<and>
            spawned (snd (handle_event registry ev irc)) =
              spawned irc @ map (\<lambda>(k, v). (v, ev)) registry \<and>
            stream (snd (handle_event registry ev irc)) = Some written)"
  using assms
  by (simp add: handle_event_def send_message_def log_it_def dispatch_def wait_for_input_def)

text \<open>
  C4 at the events of \<^verbatim>\<open>PING :server.example\<close> and of a channel message, with the
  registry of the module.
\<close>

theorem handle_event_ping_or_dispatch_witness:
  "stream connected = Some [] \<and> code ev_ping = ''PING'' \<and>
   args ev_ping = [''server.example''] \<and>
   stream (snd (handle_event IRC_COMMAND_REGISTRY ev_ping connected)) =
     Some [''PONG server.example'' @ [CHR 0x0D, CHR 0x0A]] \<and>
   spawned (snd (handle_event IRC_COMMAND_REGISTRY ev_ping connected)) = [] \<and>
   code ev_build \<noteq> ''PING'' \<and>
   spawned (snd (handle_event IRC_COMMAND_REGISTRY ev_build connected)) =
     [(Ping_insights, ev_build)] \<and>
   stream (snd (handle_event IRC_COMMAND_REGISTRY ev_build connected)) = Some []"
  using handle_event_ping_or_dispatch
      [of connected "[]" ev_ping "''server.example''" "[]" IRC_COMMAND_REGISTRY]
    handle_event_ping_or_dispatch
      [of connected "[]" ev_build "''server.example''" "[]" IRC_COMMAND_REGISTRY]
  by (simp add: connected_def init_def ev_ping_def ev_build_def IRC_COMMAND_REGISTRY_def)




text \<open>
  C6, as the claim states it, fails: the state is updated although the post did not
  succeed. The webhook answers with status 500; \<^verbatim>\<open>ping_insights\<close> looks at no status
  and records the channel and the nick.
\<close>

theorem ping_insights_server_error:
  "fst (contains_highlight sample_highlights ev_build connected) = Inr True \<and>
   server_error \<lparr>url = ''https://hooks.example.org/T0'',
                 json = [(''text'', ''(#dev) alice says: the BUILD failed today'')]\<rparr> =
     Inr \<lparr>status_code = 500, resp_text = ''Internal Server Error''\<rparr> \<and>
   most_recent_highlight_channel connected = None \<and>
   most_recent_highlight_nick connected = None \<and>
   most_recent_highlight_channel
     (snd (ping_insights sample_highlights ''https://hooks.example.org/T0'' server_error
             ev_build connected)) = Some ''#dev'' \<and>
   most_recent_highlight_nick
     (snd (ping_insights sample_highlights ''https://hooks.example.org/T0'' server_error
             ev_build connected)) = Some ''alice''"
  by (simp add: ping_insights_def server_error_def fmt_def ev_build_def highlight_eval)

text \<open>
  C6, amended. For every event matching the highlight predicate, the forward handler
  posts the JSON body \<^verbatim>\<open>{"text": "(<channel>) <nick> says: <msg>"}\<close> to the configured
  webhook URL; it sets \<open>most_recent_highlight_channel\<close> and
  \<open>most_recent_highlight_nick\<close> to this event's channel and nick whenever the post
  returns a response, whatever its status, and leaves them as they were when the post
  raises, the exception leaving the handler.
\<close>

theorem ping_insights_posts:
  assumes "fst (contains_highlight HIGHLIGHTS ev irc) = Inr True"
  shows "\<exists>c. channel ev = Some c \<and>
           posted (snd (ping_insights HIGHLIGHTS hook_url post ev irc)) =
             posted irc @
             [\<lparr>url = hook_url,
               json = [(''text'', ''('' @ c @ '') '' @ fmt (nick ev) @ '' says: '' @ msg ev)]\<rparr>] \<and>
           (case post \<lparr>url = hook_url,
                       json = [(''text'', ''('' @ c @ '') '' @ fmt (nick ev) @ '' says: '' @ msg ev)]\<rparr> of
              Inr resp \<Rightarrow>
                fst (ping_insights HIGHLIGHTS hook_url post ev irc) = Inr () \<and>
                most_recent_highlight_channel (snd (ping_insights HIGHLIGHTS hook_url post ev irc))
                  = channel ev \<and>
                most_recent_highlight_nick (snd (ping_insights HIGHLIGHTS hook_url post ev irc))
                  = nick ev
            | Inl e \<Rightarrow>
                fst (ping_insights HIGHLIGHTS hook_url post ev irc) = Inl e \<and>
                most_recent_highlight_channel (snd (ping_insights HIGHLIGHTS hook_url post ev irc))
                  = most_recent_highlight_channel irc \<and>
                most_recent_highlight_nick (snd (ping_insights HIGHLIGHTS hook_url post ev irc))
                  = most_recent_highlight_nick irc)"
proof -
  obtain c where c: "channel ev = Some c"
    using contains_highlight_true_channel [OF assms] by blast
  obtain irc1 where r: "contains_highlight HIGHLIGHTS ev irc = (Inr True, irc1)"
    using assms by (cases "contains_highlight HIGHLIGHTS ev irc") auto
  have f: "irc1 = irc\<lparr>logged := logged irc1\<rparr>"
    using contains_highlight_frame [of HIGHLIGHTS ev irc] r by simp
  have p: "posted irc1 = posted irc"
    "most_recent_highlight_channel irc1 = most_recent_highlight_channel irc"
    "most_recent_highlight_nick irc1 = most_recent_highlight_nick irc"
    by (subst f, simp)+
  show ?thesis
    using c r p
    by (auto simp: ping_insights_def Let_def log_it_def fmt_def split: sum.splits)
qed

text \<open>
  The amended C6 on the channel message, with a webhook that accepts the post and with
  one that cannot be reached.
\<close>

theorem ping_insights_posts_witness:
  "fst (contains_highlight sample_highlights ev_build connected) = Inr True \<and>
   posted (snd (ping_insights sample_highlights ''https://hooks.example.org/T0'' accepted
                  ev_build connected)) =
     [\<lparr>url = ''https://hooks.example.org/T0'',
       json = [(''text'', ''(#dev) alice says: the BUILD failed today'')]\<rparr>] \<and>
   most_recent_highlight_channel
     (snd (ping_insights sample_highlights ''https://hooks.example.org/T0'' accepted
             ev_build connected)) = Some ''#dev'' \<and>
   fst (ping_insights sample_highlights ''https://hooks.example.org/T0'' unreachable
          ev_build connected) = Inl RequestException \<and>
   most_recent_highlight_channel
     (snd (ping_insights sample_highlights ''https://hooks.example.org/T0'' unreachable
             ev_build connected)) = None"
proof -
  have h: "fst (contains_highlight sample_highlights ev_build connected) = Inr True"
    by (simp add: ev_build_def highlight_eval)
  have p: "posted connected = []" "most_recent_highlight_channel connected = None"
    by (simp_all add: connected_def init_def)
  have e: "channel ev_build = Some ''#dev''" "nick ev_build = Some ''alice''"
    "msg ev_build = ''the BUILD failed today''"
    by (simp_all add: ev_build_def)
  show ?thesis
    using h ping_insights_posts [OF h, of "''https://hooks.example.org/T0''" accepted]
      ping_insights_posts [OF h, of "''https://hooks.example.org/T0''" unreachable]
    by (simp add: p e accepted_def unreachable_def fmt_def)
qed

text \<open>
  C7. On a client whose stream is attached, calling \<^verbatim>\<open>join(name)\<close> twice succeeds both
  times, leaves the channel set as one call leaves it, namely the old set with
  \<^verbatim>\<open>#name\<close> inserted, and writes two \<^verbatim>\<open>JOIN #name\<close> lines to the stream.
\<close>

theorem join_twice:
  assumes "stream irc = Some written"
  shows "fst (join chan irc) = Inr () \<and>
         fst (join chan (snd (join chan irc))) = Inr () \<and>
         channels (snd (join chan (snd (join chan irc)))) =
           insert (CHR ''#'' # chan) (channels irc) \<and>
         channels (snd (join chan (snd (join chan irc)))) = channels (snd (join chan irc)) \<and>
         stream (snd (join chan (snd (join chan irc)))) =
           Some (written @ [''JOIN #'' @ chan @ [CHR 0x0D, CHR 0x0A],
                            ''JOIN #'' @ chan @ [CHR 0x0D, CHR 0x0A]])"
  using assms by (simp add: join_def send_message_def log_it_def)

text \<open>C7 at \<^verbatim>\<open>join("chan")\<close> on a client that has joined nothing.\<close>

theorem join_twice_witness:
  "stream connected = Some [] \<and>
   channels (snd (join ''chan'' (snd (join ''chan'' connected)))) = {''#chan''} \<and>
   stream (snd (join ''chan'' (snd (join ''chan'' connected)))) =
     Some [''JOIN #chan'' @ [CHR 0x0D, CHR 0x0A], ''JOIN #chan'' @ [CHR 0x0D, CHR 0x0A]]"
  using join_twice [of connected "[]" "''chan''"]
  by (simp add: connected_def init_def)






text \<open>
  C10. For every \<^verbatim>\<open>PRIVMSG\<close> event whose channel is unset, the highlight predicate
  returns neither true nor false: it raises \<^verbatim>\<open>AttributeError\<close> at
  \<^verbatim>\<open>channel.strip("#")\<close>, and so does the handler \<^verbatim>\<open>ping_insights\<close>, which posts
  nothing and leaves the client as it was.
\<close>

theorem unset_channel_raises:
  assumes "code ev = ''PRIVMSG''" and "channel ev = None"
  shows "contains_highlight HIGHLIGHTS ev irc = (Inl AttributeError, irc) \<and>
         ping_insights HIGHLIGHTS hook_url post ev irc = (Inl AttributeError, irc)"
  using assms by (simp add: contains_highlight_def get_highlights_for_def ping_insights_def)

text \<open>C10 on the event of a private message addressed to the bot's nick.\<close>

theorem unset_channel_raises_witness:
  "parse ('':alice!al@example.org PRIVMSG wormhole :this is urgent'' @ [CHR 0x0D, CHR 0x0A])
     = Inr ev_private \<and>
   code ev_private = ''PRIVMSG'' \<and> channel ev_private = None \<and>
   contains_highlight sample_highlights ev_private connected = (Inl AttributeError, connected) \<and>
   ping_insights sample_highlights ''https://hooks.example.org/T0'' accepted ev_private connected
     = (Inl AttributeError, connected)"
  using unset_channel_raises
      [of ev_private sample_highlights connected "''https://hooks.example.org/T0''" accepted]
    parse_ev_private
  by (simp add: ev_private_def)

end
